theory Spec2Isabelle
  imports Complex_Main "HOL-Library.AList"
begin

section \<open>Python values, exceptions and outcomes\<close>

text \<open>
  The recorder of \<^verbatim>\<open>webdriver_recorder.py\<close> keeps its trace in plain Python
  dictionaries and lists and hands them to \<^verbatim>\<open>json.dumps\<close>. The values are modelled
  as a datatype. A dictionary is an association list in insertion order. The language
  is read as Python 3: \<^verbatim>\<open>/\<close> is true division, and a float is carried as the exact
  rational it denotes (binary rounding is outside the model).
\<close>

datatype pyval =
    PyNone
  | PyBool bool
  | PyInt int
  | PyFloat rat
  | PyStr string
  | PyList "pyval list"
  | PyDict "(string \<times> pyval) list"

type_synonym pydict = "(string \<times> pyval) list"

datatype exn =
    KeyError string
  | AttributeError string
  | TypeError string
  | DriverError string

datatype 'a outcome = Returned 'a | Raised exn

section \<open>Recorder\<close>

text \<open>
  \<^verbatim>\<open>self._pages\<close> is a list of references to dictionaries and
  \<^verbatim>\<open>self._current_page\<close> is a reference to a dictionary; \<^verbatim>\<open>append\<close> stores the
  reference, not a copy. The dictionaries therefore live in a store \<open>dicts\<close>, indexed by
  address, and \<open>next_addr\<close> is the next unused address.
\<close>

type_synonym addr = nat

record recorder =
  dicts :: "addr \<Rightarrow> pydict"
  next_addr :: addr
  pages :: "addr list"
  current_page :: addr

text \<open>\<^verbatim>\<open>start\<close>: \<^verbatim>\<open>self._pages = []; self._current_page = {}\<close>.\<close>

definition start :: recorder where
  "start = \<lparr>dicts = (\<lambda>_. []), next_addr = 1, pages = [], current_page = 0\<rparr>"

text \<open>\<^verbatim>\<open>close\<close>: \<^verbatim>\<open>self._pages.append(self._current_page)\<close>.\<close>

definition close :: "recorder \<Rightarrow> recorder" where
  "close r = r\<lparr>pages := pages r @ [current_page r]\<rparr>"

text \<open>
  \<^verbatim>\<open>on_navigate_to_url\<close>: \<^verbatim>\<open>if self._current_page:\<close> tests the truth value of the
  dictionary, which is false exactly for the empty dictionary; then a new dictionary
  is allocated and becomes the current page.
\<close>

definition on_navigate_to_url :: "string \<Rightarrow> recorder \<Rightarrow> recorder" where
  "on_navigate_to_url url r =
     (let r1 = (if dicts r (current_page r) \<noteq> []
                then r\<lparr>pages := pages r @ [current_page r]\<rparr> else r)
      in r1\<lparr>dicts := (dicts r1)(next_addr r1 :=
                 [(''url'', PyStr url), (''recorded_events'', PyList [])]),
             current_page := next_addr r1,
             next_addr := Suc (next_addr r1)\<rparr>)"

text \<open>
  What the recorder reads of an element: \<^verbatim>\<open>element.location\<close> (keys x, y) and
  \<^verbatim>\<open>element.size\<close> (keys width, height).
\<close>

record element =
  loc_x :: rat
  loc_y :: rat
  size_width :: rat
  size_height :: rat

definition get_event_location :: "element \<Rightarrow> pyval" where
  "get_event_location e =
     PyDict [(''x'', PyFloat (loc_x e + size_width e / 2)),
             (''y'', PyFloat (loc_y e + size_height e / 2))]"

text \<open>
  \<^verbatim>\<open>_add_event\<close>: the location is stored in the event first; then
  \<^verbatim>\<open>self._current_page['recorded_events']\<close> raises KeyError when the key is missing,
  and otherwise the event is appended to that list in place.
\<close>

definition add_event :: "element \<Rightarrow> pydict \<Rightarrow> recorder \<Rightarrow> unit outcome \<times> recorder" where
  "add_event el event r =
     (let event1 = AList.update ''location'' (get_event_location el) event
      in case map_of (dicts r (current_page r)) ''recorded_events'' of
           None \<Rightarrow> (Raised (KeyError ''recorded_events''), r)
         | Some (PyList evs) \<Rightarrow>
             (Returned (),
              r\<lparr>dicts := (dicts r)(current_page r :=
                   AList.update ''recorded_events'' (PyList (evs @ [PyDict event1]))
                     (dicts r (current_page r)))\<rparr>)
         | Some _ \<Rightarrow> (Raised (AttributeError ''append''), r))"

definition on_click :: "element \<Rightarrow> recorder \<Rightarrow> unit outcome \<times> recorder" where
  "on_click el r = add_event el [(''event_type'', PyStr ''click'')] r"

definition on_send_keys :: "element \<Rightarrow> string \<Rightarrow> recorder \<Rightarrow> unit outcome \<times> recorder" where
  "on_send_keys el text r =
     add_event el [(''event_type'', PyStr ''send_keys''), (''text'', PyStr text)] r"

text \<open>
  \<^verbatim>\<open>export\<close>: \<^verbatim>\<open>json.dumps(self._pages)\<close>. The serializer is the standard
  library's and is a parameter \<open>dumps\<close>; the value it receives is the list of the
  dictionaries that \<^verbatim>\<open>_pages\<close> refers to. The recorder is returned as it was.
\<close>

definition trace :: "recorder \<Rightarrow> pyval list" where
  "trace r = map (\<lambda>a. PyDict (dicts r a)) (pages r)"

definition export :: "(pyval \<Rightarrow> string) \<Rightarrow> recorder \<Rightarrow> string \<times> recorder" where
  "export dumps r = (dumps (PyList (trace r)), r)"

text \<open>
  The states the recorder can be in keep every reference below \<open>next_addr\<close>, so a
  newly allocated dictionary is a new object.
\<close>

definition well_formed :: "recorder \<Rightarrow> bool" where
  "well_formed r = (current_page r < next_addr r \<and> list_all (\<lambda>a. a < next_addr r) (pages r))"

text \<open>
  A run of the recorder: the calls a client can make after \<^verbatim>\<open>start\<close>, applied in
  order. A call that raises leaves the recorder as it is and the run goes on, as it
  does for a caller that catches the exception.
\<close>

datatype recorder_call =
    Navigate string
  | Click element
  | SendKeys element string
  | Close
  | Export

fun do_call :: "(pyval \<Rightarrow> string) \<Rightarrow> recorder_call \<Rightarrow> recorder \<Rightarrow> recorder" where
  "do_call dumps (Navigate u) r = on_navigate_to_url u r"
| "do_call dumps (Click el) r = snd (on_click el r)"
| "do_call dumps (SendKeys el text) r = snd (on_send_keys el text r)"
| "do_call dumps Close r = close r"
| "do_call dumps Export r = snd (export dumps r)"

definition run :: "(pyval \<Rightarrow> string) \<Rightarrow> recorder_call list \<Rightarrow> recorder" where
  "run dumps cs = fold (do_call dumps) cs start"

fun is_navigate :: "recorder_call \<Rightarrow> bool" where
  "is_navigate (Navigate u) = True"
| "is_navigate c = False"

text \<open>Whether \<^verbatim>\<open>close()\<close> was called after the current page was opened.\<close>

definition close_called :: "recorder_call list \<Rightarrow> bool" where
  "close_called cs = (Close \<in> set (takeWhile (\<lambda>c. \<not> is_navigate c) (rev cs)))"

section \<open>The underlying driver\<close>

text \<open>
  The Selenium driver and its elements are outside the repository. They are a
  parameter: a record of operations over a browser state \<open>'b\<close>. An element is named
  by a handle. Reading a position, a size or the current URL does not change the
  browser; every other operation returns or raises, and gives the browser state it
  leaves behind. Each lookup hands out fresh element objects, as Selenium does.
\<close>

type_synonym handle = nat

record 'b webdriver =
  wd_location :: "'b \<Rightarrow> handle \<Rightarrow> rat \<times> rat"
  wd_size :: "'b \<Rightarrow> handle \<Rightarrow> rat \<times> rat"
  wd_current_url :: "'b \<Rightarrow> string"
  wd_click :: "handle \<Rightarrow> 'b \<Rightarrow> unit outcome \<times> 'b"
  wd_send_keys :: "handle \<Rightarrow> pyval list \<Rightarrow> 'b \<Rightarrow> unit outcome \<times> 'b"
  wd_get :: "string \<Rightarrow> 'b \<Rightarrow> pyval outcome \<times> 'b"
  wd_find_element :: "string \<Rightarrow> pyval \<Rightarrow> 'b \<Rightarrow> handle option outcome \<times> 'b"
  wd_find_elements :: "string \<Rightarrow> pyval \<Rightarrow> 'b \<Rightarrow> handle list outcome \<times> 'b"
  el_find_element :: "handle \<Rightarrow> string \<Rightarrow> pyval \<Rightarrow> 'b \<Rightarrow> handle option outcome \<times> 'b"
  el_find_elements :: "handle \<Rightarrow> string \<Rightarrow> pyval \<Rightarrow> 'b \<Rightarrow> handle list outcome \<times> 'b"

text \<open>
  The proxy's \<^verbatim>\<open>location\<close> and \<^verbatim>\<open>size\<close> properties forward to the wrapped element;
  this is what \<^verbatim>\<open>_get_event_location\<close> reads when it is given the proxy.
\<close>

definition read_element :: "'b webdriver \<Rightarrow> 'b \<Rightarrow> handle \<Rightarrow> element" where
  "read_element drv b h =
     \<lparr>loc_x = fst (wd_location drv b h), loc_y = snd (wd_location drv b h),
      size_width = fst (wd_size drv b h), size_height = snd (wd_size drv b h)\<rparr>"

section \<open>RecordingWebElement\<close>

text \<open>
  What a lookup can hand to the caller: a raw element or a recording proxy of one. A
  proxy is made from the recorder, the driver proxy and the element; there is one
  recorder and one driver proxy here, so the proxy is named by the element it wraps.
  Making a proxy also installs forwarding methods and properties on the proxy and
  replaces the two lookup methods of the element object; this touches neither the
  recorder nor the browser.
\<close>

datatype webobj = WebElement handle | RecordingWebElement handle

text \<open>Python's \<^verbatim>\<open>int.__str__\<close>: decimal digits, with a minus sign for negatives.\<close>

fun nat_str :: "nat \<Rightarrow> string" where
  "nat_str n =
     (if n < 10 then [''0123456789'' ! n]
      else nat_str (n div 10) @ [''0123456789'' ! (n mod 10)])"

declare nat_str.simps [simp del]

definition int_str :: "int \<Rightarrow> string" where
  "int_str i = (if i < 0 then CHR ''-'' # nat_str (nat (- i)) else nat_str (nat i))"

text \<open>
  One round of the loop of \<^verbatim>\<open>send_keys\<close>: an \<^verbatim>\<open>int\<close> (a \<^verbatim>\<open>bool\<close> is one) is
  replaced by its \<^verbatim>\<open>__str__\<close>; then \<^verbatim>\<open>val.encode('utf-8').decode('utf-8')\<close> gives a
  string back unchanged and raises AttributeError on a value without \<^verbatim>\<open>encode\<close>.
\<close>

fun val_text :: "pyval \<Rightarrow> string outcome" where
  "val_text (PyBool b) = Returned (if b then ''True'' else ''False'')"
| "val_text (PyInt i) = Returned (int_str i)"
| "val_text (PyStr s) = Returned s"
| "val_text v = Raised (AttributeError ''encode'')"

fun keys_text :: "string \<Rightarrow> pyval list \<Rightarrow> string outcome" where
  "keys_text text [] = Returned text"
| "keys_text text (val # vals) =
     (case val_text val of
        Raised e \<Rightarrow> Raised e
      | Returned s \<Rightarrow> keys_text (text @ s) vals)"


definition send_keys ::
  "'b webdriver \<Rightarrow> handle \<Rightarrow> pyval list \<Rightarrow> recorder \<times> 'b \<Rightarrow> unit outcome \<times> recorder \<times> 'b" where
  "send_keys drv h vals w =
     (case w of (r, b) \<Rightarrow>
        (case keys_text [] vals of
           Raised e \<Rightarrow> (Raised e, r, b)
         | Returned text \<Rightarrow>
             (case on_send_keys (read_element drv b h) text r of
                (Raised e, r1) \<Rightarrow> (Raised e, r1, b)
              | (Returned u, r1) \<Rightarrow>
                  (case wd_send_keys drv h vals b of (res, b1) \<Rightarrow> (res, r1, b1)))))"

text \<open>
  The element proxy's lookups call the original methods of the wrapped element and
  wrap what is truthy: an element object is, \<^verbatim>\<open>None\<close> and the empty list are not.
\<close>

definition element_find_element ::
  "'b webdriver \<Rightarrow> handle \<Rightarrow> string \<Rightarrow> pyval \<Rightarrow> recorder \<times> 'b
     \<Rightarrow> webobj option outcome \<times> recorder \<times> 'b" where
  "element_find_element drv h by val w =
     (case w of (r, b) \<Rightarrow>
        (case el_find_element drv h by val b of
           (Raised e, b1) \<Rightarrow> (Raised e, r, b1)
         | (Returned el, b1) \<Rightarrow>
             (Returned (case el of None \<Rightarrow> None | Some x \<Rightarrow> Some (RecordingWebElement x)),
              r, b1)))"

definition element_find_elements ::
  "'b webdriver \<Rightarrow> handle \<Rightarrow> string \<Rightarrow> pyval \<Rightarrow> recorder \<times> 'b
     \<Rightarrow> webobj list outcome \<times> recorder \<times> 'b" where
  "element_find_elements drv h by val w =
     (case w of (r, b) \<Rightarrow>
        (case el_find_elements drv h by val b of
           (Raised e, b1) \<Rightarrow> (Raised e, r, b1)
         | (Returned els, b1) \<Rightarrow>
             (Returned (if els \<noteq> [] then map RecordingWebElement els
                        else map WebElement els),
              r, b1)))"

text \<open>Whether an object handed to the caller is a recording proxy.\<close>

fun is_proxy :: "webobj \<Rightarrow> bool" where
  "is_proxy (RecordingWebElement h) = True"
| "is_proxy (WebElement h) = False"

text \<open>
  The arguments \<^verbatim>\<open>send_keys\<close> can turn into text, and the text of each: a string as it
  is, an integer stringified.
\<close>

fun str_or_int :: "pyval \<Rightarrow> bool" where
  "str_or_int (PyStr s) = True"
| "str_or_int (PyInt i) = True"
| "str_or_int (PyBool b) = True"
| "str_or_int v = False"

fun normalized :: "pyval \<Rightarrow> string" where
  "normalized (PyStr s) = s"
| "normalized (PyInt i) = int_str i"
| "normalized (PyBool b) = (if b then ''True'' else ''False'')"
| "normalized v = []"

section \<open>RecordingWebDriver\<close>

definition get :: "'b webdriver \<Rightarrow> string \<Rightarrow> recorder \<times> 'b \<Rightarrow> pyval outcome \<times> recorder \<times> 'b" where
  "get drv url w =
     (case w of (r, b) \<Rightarrow>
        (case wd_get drv url b of
           (res, b1) \<Rightarrow> (res, on_navigate_to_url url r, b1)))"

definition driver_find_element ::
  "'b webdriver \<Rightarrow> string \<Rightarrow> pyval \<Rightarrow> recorder \<times> 'b
     \<Rightarrow> webobj option outcome \<times> recorder \<times> 'b" where
  "driver_find_element drv by val w =
     (case w of (r, b) \<Rightarrow>
        (case wd_find_element drv by val b of
           (Raised e, b1) \<Rightarrow> (Raised e, r, b1)
         | (Returned el, b1) \<Rightarrow>
             (Returned (case el of None \<Rightarrow> None | Some x \<Rightarrow> Some (RecordingWebElement x)),
              r, b1)))"

definition driver_find_elements ::
  "'b webdriver \<Rightarrow> string \<Rightarrow> pyval \<Rightarrow> recorder \<times> 'b
     \<Rightarrow> webobj list outcome \<times> recorder \<times> 'b" where
  "driver_find_elements drv by val w =
     (case w of (r, b) \<Rightarrow>
        (case wd_find_elements drv by val b of
           (Raised e, b1) \<Rightarrow> (Raised e, r, b1)
         | (Returned els, b1) \<Rightarrow>
             (Returned (if els \<noteq> [] then map RecordingWebElement els
                        else map WebElement els),
              r, b1)))"

section \<open>Interface mirroring (\<^verbatim>\<open>metaprog_utils.py\<close>)\<close>
















section \<open>A small driver for the examples\<close>

text \<open>
  One page with elements of size 100 by 40, all at the same position. A click moves
  them 5 to the right and marks the URL; typed keys are logged; a lookup by id finds
  element 7 (or 7 and 8), any other lookup finds nothing.
\<close>

record browser =
  b_url :: string
  b_pos :: "rat \<times> rat"
  b_typed :: "pyval list"

definition example_driver :: "browser webdriver" where
  "example_driver =
     \<lparr>wd_location = (\<lambda>b h. b_pos b),
      wd_size = (\<lambda>b h. (100, 40)),
      wd_current_url = b_url,
      wd_click = (\<lambda>h b. (Returned (),
         b\<lparr>b_url := b_url b @ ''#next'', b_pos := (fst (b_pos b) + 5, snd (b_pos b))\<rparr>)),
      wd_send_keys = (\<lambda>h vals b. (Returned (), b\<lparr>b_typed := b_typed b @ vals\<rparr>)),
      wd_get = (\<lambda>u b. (Returned PyNone, b\<lparr>b_url := u\<rparr>)),
      wd_find_element = (\<lambda>by v b. (Returned (if by = ''id'' then Some 7 else None), b)),
      wd_find_elements = (\<lambda>by v b. (Returned (if by = ''id'' then [7, 8] else []), b)),
      el_find_element = (\<lambda>h by v b. (Returned (if by = ''id'' then Some 7 else None), b)),
      el_find_elements = (\<lambda>h by v b. (Returned (if by = ''id'' then [7, 8] else []), b))\<rparr>"

definition example_browser :: browser where
  "example_browser = \<lparr>b_url = ''http://example/'', b_pos = (10, 20), b_typed = []\<rparr>"


section \<open>Properties of the recorder\<close>

text \<open>
  C1. From a fresh recorder, \<^verbatim>\<open>on_navigate_to_url(u1)\<close>, \<^verbatim>\<open>on_navigate_to_url(u2)\<close> and
  \<^verbatim>\<open>close()\<close> give a trace of exactly two pages: the page of \<open>u1\<close> with no recorded
  events, immediately followed by the page of \<open>u2\<close>.
\<close>

theorem navigate_twice_then_close:
  "trace (close (on_navigate_to_url u2 (on_navigate_to_url u1 start))) =
     [PyDict [(''url'', PyStr u1), (''recorded_events'', PyList [])],
      PyDict [(''url'', PyStr u2), (''recorded_events'', PyList [])]]"
  by (simp add: trace_def close_def on_navigate_to_url_def start_def Let_def)

text \<open>
  C10. \<^verbatim>\<open>close()\<close> right after \<^verbatim>\<open>start\<close> is not a no-op: it appends the empty
  current-page dictionary, so \<^verbatim>\<open>export()\<close> serializes a one-entry trace holding an
  empty record, which is not the empty sequence.
\<close>

theorem close_after_start_exports_empty_record:
  "pages (close start) \<noteq> pages start \<and>
   trace (close start) = [PyDict []] \<and>
   fst (export dumps (close start)) = dumps (PyList [PyDict []]) \<and>
   trace (close start) \<noteq> [] \<and>
   trace start = []"
  by (simp add: trace_def close_def start_def export_def)

lemma add_event_open:
  assumes "map_of (dicts r (current_page r)) ''recorded_events'' = Some (PyList evs)"
  shows "add_event el event r =
     (Returned (),
      r\<lparr>dicts := (dicts r)(current_page r :=
           AList.update ''recorded_events''
             (PyList (evs @ [PyDict (AList.update ''location'' (get_event_location el) event)]))
             (dicts r (current_page r)))\<rparr>)"
  using assms by (simp add: add_event_def Let_def)

text \<open>
  C5. When no page is open (the current page is the empty dictionary of \<^verbatim>\<open>start\<close>),
  \<^verbatim>\<open>on_click\<close> and \<^verbatim>\<open>on_send_keys\<close> raise KeyError for every element and text, and
  the recorder, hence the trace of finalized pages, is left as it was.
\<close>

theorem event_without_page_fails:
  assumes "dicts r (current_page r) = []"
  shows "on_click el r = (Raised (KeyError ''recorded_events''), r) \<and>
         on_send_keys el text r = (Raised (KeyError ''recorded_events''), r) \<and>
         trace (snd (on_click el r)) = trace r \<and>
         trace (snd (on_send_keys el text r)) = trace r"
  using assms by (simp add: on_click_def on_send_keys_def add_event_def Let_def)

theorem event_without_page_fails_witness:
  "dicts start (current_page start) = [] \<and>
   on_click \<lparr>loc_x = 10, loc_y = 20, size_width = 100, size_height = 40\<rparr> start =
     (Raised (KeyError ''recorded_events''), start) \<and>
   on_send_keys \<lparr>loc_x = 10, loc_y = 20, size_width = 100, size_height = 40\<rparr> ''abc'' start =
     (Raised (KeyError ''recorded_events''), start)"
proof -
  have h: "dicts start (current_page start) = []"
    by (simp add: start_def)
  show ?thesis
    using h event_without_page_fails [OF h] by simp
qed



text \<open>
  C2, as stated, fails: after \<^verbatim>\<open>start\<close> and \<^verbatim>\<open>on_navigate_to_url('a')\<close> the open page
  has no events and the trace is empty; \<^verbatim>\<open>on_navigate_to_url('b')\<close> then adds the
  superseded empty page of \<open>a\<close> to the trace.
\<close>

theorem navigation_does_not_coalesce_counterexample:
  "map_of (dicts (on_navigate_to_url ''a'' start) (current_page (on_navigate_to_url ''a'' start)))
       ''recorded_events'' = Some (PyList []) \<and>
   trace (on_navigate_to_url ''a'' start) = [] \<and>
   trace (on_navigate_to_url ''b'' (on_navigate_to_url ''a'' start)) =
     [PyDict [(''url'', PyStr ''a''), (''recorded_events'', PyList [])]]"
  by (simp add: trace_def on_navigate_to_url_def start_def Let_def)

lemma add_event_keeps:
  "pages (snd (add_event el event r)) = pages r \<and>
   current_page (snd (add_event el event r)) = current_page r \<and>
   next_addr (snd (add_event el event r)) = next_addr r"
  by (simp add: add_event_def Let_def split: option.splits pyval.splits)

lemma well_formed_navigate:
  assumes "well_formed r"
  shows "well_formed (on_navigate_to_url url r)"
  using assms
  by (auto simp add: well_formed_def on_navigate_to_url_def Let_def list_all_iff)

lemma well_formed_do_call:
  assumes "well_formed r"
  shows "well_formed (do_call dumps c r)"
proof (cases c)
  case (Navigate u)
  then show ?thesis using assms by (simp add: well_formed_navigate)
next
  case (Click el)
  then show ?thesis using assms
    by (simp add: well_formed_def on_click_def add_event_keeps)
next
  case (SendKeys el t)
  then show ?thesis using assms
    by (simp add: well_formed_def on_send_keys_def add_event_keeps)
next
  case Close
  then show ?thesis using assms by (simp add: well_formed_def close_def)
next
  case Export
  then show ?thesis using assms by (simp add: export_def)
qed

lemma run_snoc: "run dumps (cs @ [c]) = do_call dumps c (run dumps cs)"
  by (simp add: run_def)

lemma well_formed_run: "well_formed (run dumps cs)"
proof (induction cs rule: rev_induct)
  case Nil
  show ?case by (simp add: run_def start_def well_formed_def)
next
  case (snoc c cs)
  then show ?case by (simp add: run_snoc well_formed_do_call)
qed

lemma close_called_snoc:
  "close_called (cs @ [c]) = (if is_navigate c then False else (c = Close \<or> close_called cs))"
  by (auto simp add: close_called_def)

lemma navigate_current_not_in_pages:
  assumes "well_formed r"
  shows "current_page (on_navigate_to_url url r) \<notin> set (pages (on_navigate_to_url url r))"
  using assms
  by (auto simp add: well_formed_def on_navigate_to_url_def Let_def list_all_iff)

lemma open_page_in_trace_iff:
  "current_page (run dumps cs) \<in> set (pages (run dumps cs)) \<longleftrightarrow> close_called cs"
proof (induction cs rule: rev_induct)
  case Nil
  show ?case by (simp add: run_def start_def close_called_def)
next
  case (snoc c cs)
  show ?case
  proof (cases c)
    case (Navigate u)
    then show ?thesis
      using navigate_current_not_in_pages [OF well_formed_run [of dumps cs]]
      by (simp add: run_snoc close_called_snoc)
  next
    case (Click el)
    then show ?thesis using snoc
      by (simp add: run_snoc close_called_snoc on_click_def add_event_keeps)
  next
    case (SendKeys el t)
    then show ?thesis using snoc
      by (simp add: run_snoc close_called_snoc on_send_keys_def add_event_keeps)
  next
    case Close
    then show ?thesis by (simp add: run_snoc close_called_snoc close_def)
  next
    case Export
    then show ?thesis using snoc
      by (simp add: run_snoc close_called_snoc export_def)
  qed
qed

text \<open>
  C8. \<^verbatim>\<open>export()\<close> returns the serialization of the finalized pages and leaves the
  recorder as it was, so a second call gives the same output; and in every state that a
  run of calls reaches from \<^verbatim>\<open>start\<close>, the open page is among the exported pages
  exactly when \<^verbatim>\<open>close()\<close> has been called since that page was opened.
\<close>

theorem export_is_pure:
  "export dumps r = (dumps (PyList (trace r)), r) \<and>
   fst (export dumps (snd (export dumps r))) = fst (export dumps r) \<and>
   snd (export dumps (snd (export dumps r))) = r \<and>
   (current_page (run dumps cs) \<in> set (pages (run dumps cs)) \<longleftrightarrow> close_called cs)"
  using open_page_in_trace_iff [of dumps cs] by (simp add: export_def)

text \<open>
  C2, amended. \<^verbatim>\<open>on_navigate_to_url\<close> appends the current page to the trace whenever
  a page is open, with or without recorded events; only the empty dictionary of
  \<^verbatim>\<open>start\<close> is not appended. The new current page has the given URL and no events.
\<close>

theorem navigation_finalizes_open_page:
  assumes "well_formed r"
  shows "pages (on_navigate_to_url url r) =
           (if dicts r (current_page r) = [] then pages r else pages r @ [current_page r]) \<and>
         trace (on_navigate_to_url url r) =
           (if dicts r (current_page r) = [] then trace r
            else trace r @ [PyDict (dicts r (current_page r))]) \<and>
         dicts (on_navigate_to_url url r) (current_page (on_navigate_to_url url r)) =
           [(''url'', PyStr url), (''recorded_events'', PyList [])]"
  using assms
  by (auto simp add: on_navigate_to_url_def Let_def trace_def well_formed_def list_all_iff)

theorem navigation_finalizes_open_page_witness:
  "well_formed (on_navigate_to_url ''a'' start) \<and>
   trace (on_navigate_to_url ''b'' (on_navigate_to_url ''a'' start)) =
     trace (on_navigate_to_url ''a'' start) @
       [PyDict [(''url'', PyStr ''a''), (''recorded_events'', PyList [])]]"
proof -
  have h: "well_formed (on_navigate_to_url ''a'' start)"
    by (simp add: well_formed_def on_navigate_to_url_def start_def Let_def)
  have d: "dicts (on_navigate_to_url ''a'' start) (current_page (on_navigate_to_url ''a'' start)) =
      [(''url'', PyStr ''a''), (''recorded_events'', PyList [])]"
    by (simp add: on_navigate_to_url_def start_def Let_def)
  show ?thesis
    using h navigation_finalizes_open_page [OF h, of "''b''"] d by simp
qed

section \<open>Properties of interface mirroring\<close>











section \<open>Properties of the proxies\<close>

lemma val_text_ok: "str_or_int v \<Longrightarrow> val_text v = Returned (normalized v)"
  by (cases v) simp_all

lemma val_text_bad: "\<not> str_or_int v \<Longrightarrow> val_text v = Raised (AttributeError ''encode'')"
  by (cases v) simp_all

lemma keys_text_ok:
  "list_all str_or_int vals \<Longrightarrow> keys_text acc vals = Returned (acc @ concat (map normalized vals))"
  by (induction vals arbitrary: acc) (simp_all add: val_text_ok)

lemma keys_text_bad:
  "\<not> list_all str_or_int vals \<Longrightarrow> keys_text acc vals = Raised (AttributeError ''encode'')"
proof (induction vals arbitrary: acc)
  case Nil
  then show ?case by simp
next
  case (Cons v vals)
  show ?case
  proof (cases "str_or_int v")
    case True
    then show ?thesis using Cons by (simp add: val_text_ok)
  next
    case False
    then show ?thesis by (simp add: val_text_bad)
  qed
qed

text \<open>
  C4, amended. When every argument is a string or an integer (a boolean is one), the
  recorded text is the concatenation, in order, of the strings and the decimal forms of
  the integers; with a page open the SendKeys event with this text and the location read
  before the real call is appended, whatever the real \<^verbatim>\<open>send_keys\<close> then does, and the
  real \<^verbatim>\<open>send_keys\<close> receives the original arguments. When some argument is neither a
  string nor an integer, \<^verbatim>\<open>send_keys\<close> raises AttributeError, records nothing and
  does not call the real \<^verbatim>\<open>send_keys\<close>.
\<close>

theorem send_keys_records_text_then_sends:
  assumes "map_of (dicts r (current_page r)) ''recorded_events'' = Some (PyList evs)"
  shows "(list_all str_or_int vals \<longrightarrow>
            keys_text [] vals = Returned (concat (map normalized vals)) \<and>
            send_keys drv h vals (r, b) =
              (fst (wd_send_keys drv h vals b),
               snd (on_send_keys (read_element drv b h) (concat (map normalized vals)) r),
               snd (wd_send_keys drv h vals b)) \<and>
            map_of (dicts (snd (on_send_keys (read_element drv b h)
                                  (concat (map normalized vals)) r)) (current_page r))
                ''recorded_events'' =
              Some (PyList (evs @ [PyDict [(''event_type'', PyStr ''send_keys''),
                 (''text'', PyStr (concat (map normalized vals))),
                 (''location'', get_event_location (read_element drv b h))]]))) \<and>
         (\<not> list_all str_or_int vals \<longrightarrow>
            send_keys drv h vals (r, b) = (Raised (AttributeError ''encode''), r, b))"
proof (intro conjI impI)
  assume ok: "list_all str_or_int vals"
  show t: "keys_text [] vals = Returned (concat (map normalized vals))"
    using keys_text_ok [OF ok, of "[]"] by simp
  show "send_keys drv h vals (r, b) =
          (fst (wd_send_keys drv h vals b),
           snd (on_send_keys (read_element drv b h) (concat (map normalized vals)) r),
           snd (wd_send_keys drv h vals b))"
    by (simp add: send_keys_def t on_send_keys_def add_event_open [OF assms] split: prod.splits)
  show "map_of (dicts (snd (on_send_keys (read_element drv b h)
                              (concat (map normalized vals)) r)) (current_page r))
            ''recorded_events'' =
          Some (PyList (evs @ [PyDict [(''event_type'', PyStr ''send_keys''),
             (''text'', PyStr (concat (map normalized vals))),
             (''location'', get_event_location (read_element drv b h))]]))"
    by (simp add: on_send_keys_def add_event_open [OF assms] update_conv')
next
  assume "\<not> list_all str_or_int vals"
  then show "send_keys drv h vals (r, b) = (Raised (AttributeError ''encode''), r, b)"
    by (simp add: send_keys_def keys_text_bad)
qed

lemma int_str_3: "int_str 3 = ''3''"
  by (simp add: int_str_def nat_str.simps [of 3])

theorem send_keys_records_text_then_sends_witness:
  "keys_text [] [PyStr ''a'', PyInt 3, PyStr ''b''] = Returned ''a3b'' \<and>
   send_keys example_driver 7 [PyStr ''a'', PyInt 3, PyStr ''b'']
       (on_navigate_to_url ''http://example/'' start, example_browser) =
     (Returned (),
      snd (on_send_keys \<lparr>loc_x = 10, loc_y = 20, size_width = 100, size_height = 40\<rparr> ''a3b''
             (on_navigate_to_url ''http://example/'' start)),
      example_browser\<lparr>b_typed := [PyStr ''a'', PyInt 3, PyStr ''b'']\<rparr>) \<and>
   map_of (dicts (snd (on_send_keys \<lparr>loc_x = 10, loc_y = 20, size_width = 100, size_height = 40\<rparr>
                         ''a3b'' (on_navigate_to_url ''http://example/'' start)))
             (current_page (on_navigate_to_url ''http://example/'' start))) ''recorded_events'' =
     Some (PyList [PyDict [(''event_type'', PyStr ''send_keys''), (''text'', PyStr ''a3b''),
                           (''location'', PyDict [(''x'', PyFloat 60), (''y'', PyFloat 40)])]])"
proof -
  let ?r = "on_navigate_to_url ''http://example/'' start"
  let ?vals = "[PyStr ''a'', PyInt 3, PyStr ''b'']"
  have h: "map_of (dicts ?r (current_page ?r)) ''recorded_events'' = Some (PyList [])"
    by (simp add: on_navigate_to_url_def start_def Let_def)
  have ok: "list_all str_or_int ?vals"
    by simp
  have el: "read_element example_driver example_browser 7 =
      \<lparr>loc_x = 10, loc_y = 20, size_width = 100, size_height = 40\<rparr>"
    by (simp add: read_element_def example_driver_def example_browser_def)
  have sent: "wd_send_keys example_driver 7 ?vals example_browser =
      (Returned (), example_browser\<lparr>b_typed := ?vals\<rparr>)"
    by (simp add: example_driver_def example_browser_def)
  show ?thesis
    using send_keys_records_text_then_sends [OF h, of ?vals example_driver 7 example_browser] ok
    by (simp add: el sent int_str_3 get_event_location_def)
qed

text \<open>
  C4, as stated, fails on a float: \<^verbatim>\<open>send_keys('a', 1.5)\<close> raises AttributeError, the
  float is not stringified, no event is recorded and nothing is typed.
\<close>

theorem send_keys_float_counterexample:
  "send_keys example_driver 7 [PyStr ''a'', PyFloat (3 / 2)]
       (on_navigate_to_url ''http://example/'' start, example_browser) =
     (Raised (AttributeError ''encode''),
      on_navigate_to_url ''http://example/'' start, example_browser)"
  by (simp add: send_keys_def)



text \<open>
  C7. For the lookups of the driver proxy and of an element proxy, with any strategy and
  value: every element of a returned result is a recording proxy, the result wraps the
  elements of the underlying result one by one and in order, \<^verbatim>\<open>find_elements\<close> returns
  the empty list when the underlying lookup finds none, and \<^verbatim>\<open>find_element\<close> returns
  \<^verbatim>\<open>None\<close> when the underlying lookup returns \<^verbatim>\<open>None\<close>.
\<close>

theorem lookups_wrap_every_element:
  "(fst (driver_find_element drv by val w) = Returned (Some x) \<longrightarrow> is_proxy x) \<and>
   (fst (driver_find_elements drv by val w) = Returned xs \<longrightarrow> list_all is_proxy xs) \<and>
   (fst (element_find_element drv h by val w) = Returned (Some x) \<longrightarrow> is_proxy x) \<and>
   (fst (element_find_elements drv h by val w) = Returned xs \<longrightarrow> list_all is_proxy xs) \<and>
   (fst (wd_find_element drv by val (snd w)) = Returned el \<longrightarrow>
      fst (driver_find_element drv by val w) = Returned (map_option RecordingWebElement el)) \<and>
   (fst (wd_find_elements drv by val (snd w)) = Returned els \<longrightarrow>
      fst (driver_find_elements drv by val w) = Returned (map RecordingWebElement els)) \<and>
   (fst (el_find_element drv h by val (snd w)) = Returned el \<longrightarrow>
      fst (element_find_element drv h by val w) = Returned (map_option RecordingWebElement el)) \<and>
   (fst (el_find_elements drv h by val (snd w)) = Returned els \<longrightarrow>
      fst (element_find_elements drv h by val w) = Returned (map RecordingWebElement els)) \<and>
   (fst (wd_find_element drv by val (snd w)) = Returned None \<longrightarrow>
      fst (driver_find_element drv by val w) = Returned None) \<and>
   (fst (wd_find_elements drv by val (snd w)) = Returned [] \<longrightarrow>
      fst (driver_find_elements drv by val w) = Returned []) \<and>
   (fst (el_find_element drv h by val (snd w)) = Returned None \<longrightarrow>
      fst (element_find_element drv h by val w) = Returned None) \<and>
   (fst (el_find_elements drv h by val (snd w)) = Returned [] \<longrightarrow>
      fst (element_find_elements drv h by val w) = Returned [])"
proof -
  obtain r b where w: "w = (r, b)"
    by (cases w)
  have d1: "fst (driver_find_element drv by val w) =
      (case fst (wd_find_element drv by val b) of
         Raised e \<Rightarrow> Raised e | Returned el \<Rightarrow> Returned (map_option RecordingWebElement el))"
    by (simp add: w driver_find_element_def map_option_case split: prod.splits outcome.splits)
  have d2: "fst (driver_find_elements drv by val w) =
      (case fst (wd_find_elements drv by val b) of
         Raised e \<Rightarrow> Raised e | Returned els \<Rightarrow> Returned (map RecordingWebElement els))"
    by (simp add: w driver_find_elements_def split: prod.splits outcome.splits)
  have e1: "fst (element_find_element drv h by val w) =
      (case fst (el_find_element drv h by val b) of
         Raised e \<Rightarrow> Raised e | Returned el \<Rightarrow> Returned (map_option RecordingWebElement el))"
    by (simp add: w element_find_element_def map_option_case split: prod.splits outcome.splits)
  have e2: "fst (element_find_elements drv h by val w) =
      (case fst (el_find_elements drv h by val b) of
         Raised e \<Rightarrow> Raised e | Returned els \<Rightarrow> Returned (map RecordingWebElement els))"
    by (simp add: w element_find_elements_def split: prod.splits outcome.splits)
  show ?thesis
    unfolding d1 d2 e1 e2
    by (auto simp add: w list_all_iff split: outcome.splits)
qed

theorem lookups_wrap_every_element_witness:
  "fst (driver_find_elements example_driver ''id'' PyNone (start, example_browser)) =
     Returned [RecordingWebElement 7, RecordingWebElement 8] \<and>
   fst (driver_find_elements example_driver ''xpath'' PyNone (start, example_browser)) =
     Returned [] \<and>
   fst (driver_find_element example_driver ''id'' PyNone (start, example_browser)) =
     Returned (Some (RecordingWebElement 7)) \<and>
   fst (driver_find_element example_driver ''xpath'' PyNone (start, example_browser)) =
     Returned None \<and>
   fst (element_find_elements example_driver 7 ''id'' PyNone (start, example_browser)) =
     Returned [RecordingWebElement 7, RecordingWebElement 8] \<and>
   fst (element_find_element example_driver 7 ''xpath'' PyNone (start, example_browser)) =
     Returned None"
proof -
  have u1: "fst (wd_find_elements example_driver ''id'' PyNone (snd (start, example_browser))) =
      Returned [7, 8]"
    and u2: "fst (wd_find_elements example_driver ''xpath'' PyNone (snd (start, example_browser))) =
      Returned []"
    and u3: "fst (wd_find_element example_driver ''id'' PyNone (snd (start, example_browser))) =
      Returned (Some 7)"
    and u4: "fst (wd_find_element example_driver ''xpath'' PyNone (snd (start, example_browser))) =
      Returned None"
    and u5: "fst (el_find_elements example_driver 7 ''id'' PyNone (snd (start, example_browser))) =
      Returned [7, 8]"
    and u6: "fst (el_find_element example_driver 7 ''xpath'' PyNone (snd (start, example_browser))) =
      Returned None"
    by (simp_all add: example_driver_def)
  note id = lookups_wrap_every_element
    [of example_driver "''id''" PyNone "(start, example_browser)" _ _ 7 "Some 7" "[7, 8]"]
  note xp = lookups_wrap_every_element
    [of example_driver "''xpath''" PyNone "(start, example_browser)" _ _ 7 None "[]"]
  show ?thesis
    using id xp u1 u2 u3 u4 u5 u6 by simp
qed

end
